theory Spec2Isabelle
  imports Main
begin

section \<open>JavaScript values, errors and strings\<close>

text \<open>
  A thrown exception is a value: the constructor is the JavaScript error class, the
  string is the message (for \<open>ReferenceError\<close>, the identifier that is not defined).
\<close>

datatype js_error = Error string | TypeError string | ReferenceError string

text \<open>
  Identifier resolution. A free identifier of a CommonJS module is looked up in the
  bindings of the module itself and then on the global object; when neither has it,
  reading it throws \<open>ReferenceError\<close>. The bindings of each module are read off the
  top of its file; \<open>globals\<close> are the names that the modules outside these files
  have put on the global object.
\<close>

definition resolve :: "string list \<Rightarrow> string list \<Rightarrow> string \<Rightarrow> js_error + unit" where
  "resolve scope globals x =
     (if x \<in> set scope \<or> x \<in> set globals then Inr ()
      else Inl (ReferenceError x))"


text \<open>
  \<open>lib/ffmpeg_command.js\<close> declares \<open>EventEmitter\<close>, \<open>config\<close>, \<open>logger\<close>, \<open>cp\<close>,
  \<open>FFmpegInput\<close>, \<open>FFmpegOutput\<close> (lines 6 to 12) and the class itself.
\<close>

definition ffmpeg_command_scope :: "string list" where
  "ffmpeg_command_scope =
     [''EventEmitter'', ''config'', ''logger'', ''cp'', ''FFmpegInput'', ''FFmpegOutput'',
      ''FFmpegCommand'']"

text \<open>Decimal text of an array index or a length, as a template literal prints it.\<close>

definition digit :: "nat \<Rightarrow> char" where
  "digit d = ''0123456789'' ! d"

function show_nat :: "nat \<Rightarrow> string" where
  "show_nat n = (if n < 10 then [digit n] else show_nat (n div 10) @ [digit (n mod 10)])"
  by pat_completeness auto
termination
  by (relation "measure (\<lambda>n. n)") auto

declare show_nat.simps [simp del]

text \<open>\<open>Array.prototype.join\<close> on an array of strings.\<close>

fun join :: "string \<Rightarrow> string list \<Rightarrow> string" where
  "join sep [] = []"
| "join sep [x] = x"
| "join sep (x # y # ys) = x @ sep @ join sep (y # ys)"

text \<open>\<open>String.prototype.startsWith\<close> and \<open>endsWith\<close> with a one-character argument.\<close>

fun startsWith :: "string \<Rightarrow> char \<Rightarrow> bool" where
  "startsWith [] c = False"
| "startsWith (x # xs) c = (x = c)"

fun endsWith :: "string \<Rightarrow> char \<Rightarrow> bool" where
  "endsWith [] c = False"
| "endsWith [x] c = (x = c)"
| "endsWith (x # y # ys) c = endsWith (y # ys) c"

section \<open>Filter nodes\<close>

text \<open>
  Modelled from the spec: the class \<open>FilterNode\<close> (\<open>lib/filter_node.js\<close>) is not among
  the sources. A node has a name and declared input and output pads; the chain reads
  its properties \<open>inputs\<close>, \<open>outputs\<close> (arrays of pad descriptors, the descriptor
  \<open>N\<close> standing for any number of pads) and \<open>padPrefix\<close>. The node's own
  \<open>toString()\<close> is a parameter \<open>nstr\<close> of the functions that call it.
\<close>

record FilterNode =
  filterName :: string
  node_inputs :: "string list"
  node_outputs :: "string list"
  padPrefix :: string

section \<open>Filter chains (\<open>lib/filter_chain.js\<close>)\<close>

text \<open>
  The chain's fields \<open>nodes\<close> and \<open>inputs\<close>. The class of stream specifiers
  (\<open>lib/ffmpeg_stream_specifier.js\<close>) is not among the sources: its objects are the
  type parameter \<open>'s\<close>, and their \<open>toString()\<close> is a parameter \<open>sstr\<close>.
\<close>

record 's FilterChain =
  nodes :: "FilterNode list"
  inputs :: "'s list"

text \<open>The values a caller can pass where the code tests the argument's type.\<close>

datatype 's obj =
    Undefined
  | Null
  | Str string
  | Num int
  | NodeObj FilterNode
  | ChainObj "'s FilterChain"
  | SpecObj 's
  | ArrayObj "'s obj list"

fun isFilterNode :: "'s obj \<Rightarrow> bool" where
  "isFilterNode (NodeObj n) = True"
| "isFilterNode v = False"


fun theNodes :: "'s obj list \<Rightarrow> FilterNode list" where
  "theNodes [] = []"
| "theNodes (NodeObj n # vs) = n # theNodes vs"
| "theNodes (v # vs) = theNodes vs"


text \<open>The constructor, lines 15 to 24.\<close>

fun FilterChain_new :: "'s obj \<Rightarrow> js_error + 's FilterChain" where
  "FilterChain_new (ArrayObj vs) =
     (if length vs < 1 then
        Inl (Error ''Invalid parameter: nodes Array cannot be empty; it must have at least one FilterNode object'')
      else if list_ex (\<lambda>i. \<not> isFilterNode i) vs then
        Inl (Error ''Invalid parameter: nodes Array must contain only FilterNode object'')
      else Inr \<lparr>nodes = theNodes vs, inputs = []\<rparr>)"
| "FilterChain_new v =
     Inl (Error ''Invalid parameter: nodes Array cannot be empty; it must have at least one FilterNode object'')"

text \<open>\<open>appendNodes\<close> and \<open>prependNodes\<close>, lines 31 to 42.\<close>

definition appendNodes :: "'s FilterChain \<Rightarrow> FilterNode list \<Rightarrow> 's FilterChain" where
  "appendNodes c ns = c\<lparr>nodes := nodes c @ ns\<rparr>"

definition prependNodes :: "'s FilterChain \<Rightarrow> FilterNode list \<Rightarrow> 's FilterChain" where
  "prependNodes c ns = c\<lparr>nodes := ns @ nodes c\<rparr>"


definition outputNode :: "'s FilterChain \<Rightarrow> js_error + FilterNode" where
  "outputNode c =
     (case nodes c of [] \<Rightarrow> Inl (TypeError ''undefined'') | n # ns \<Rightarrow> Inr (last (n # ns)))"


definition outputPads :: "'s FilterChain \<Rightarrow> js_error + string list" where
  "outputPads c = (case outputNode c of Inl e \<Rightarrow> Inl e | Inr n \<Rightarrow> Inr (node_outputs n))"




text \<open>\<open>toString\<close>, lines 148 to 159. \<open>bracket\<close> is the callback of line 149.\<close>

definition bracket :: "string \<Rightarrow> string" where
  "bracket str =
     (if startsWith str CHR ''['' \<and> endsWith str CHR '']'' then str
      else ''['' @ str @ '']'')"

definition inputsText :: "('s \<Rightarrow> string) \<Rightarrow> 's FilterChain \<Rightarrow> string" where
  "inputsText sstr c = join [] (map (\<lambda>i. bracket (sstr i)) (inputs c))"

definition filtersText :: "(FilterNode \<Rightarrow> string) \<Rightarrow> 's FilterChain \<Rightarrow> string" where
  "filtersText nstr c = join '','' (map nstr (nodes c))"

definition outputsText :: "FilterNode \<Rightarrow> string" where
  "outputsText n =
     join [] (map (\<lambda>i. ''['' @ padPrefix n @ ''_'' @ show_nat i @ '']'')
                  [0 ..< length (node_outputs n)])"

definition FilterChain_toString ::
  "('s \<Rightarrow> string) \<Rightarrow> (FilterNode \<Rightarrow> string) \<Rightarrow> 's FilterChain \<Rightarrow> js_error + string" where
  "FilterChain_toString sstr nstr c =
     (case outputNode c of
        Inl e \<Rightarrow> Inl e
      | Inr n \<Rightarrow> Inr (inputsText sstr c @ filtersText nstr c @ outputsText n))"

text \<open>The static \<open>wrap\<close>, lines 167 to 172.\<close>

definition wrap :: "'s obj \<Rightarrow> js_error + 's obj" where
  "wrap filterNode =
     (if isFilterNode filterNode then
        (case FilterChain_new (ArrayObj [filterNode]) of
           Inl e \<Rightarrow> Inl e
         | Inr c \<Rightarrow> Inr (ChainObj c))
      else Inr filterNode)"

section \<open>The command (\<open>lib/ffmpeg_command.js\<close>)\<close>

text \<open>
  Inputs, outputs and the filter objects named in mappings are JavaScript objects that
  the caller keeps and the command refers to: the same object can be passed twice, and a
  method that writes a property writes it for every holder. Objects are therefore
  addresses into stores, one store for each class.
\<close>

type_synonym ref = nat

text \<open>
  Of an \<open>FFmpegInput\<close> (\<open>lib/ffmpeg_input.js\<close>, not among the sources) the command
  reads \<open>url\<close> and writes \<open>inputLabel\<close>, which is \<open>undefined\<close> (\<open>None\<close>) until
  then.
\<close>

record FFmpegInput =
  url :: string
  inputLabel :: "nat option"

text \<open>
  Modelled from the spec: the members \<open>outputPadNames\<close> and \<open>markOutputPadMapped\<close>
  of \<open>FilterNode\<close> and \<open>FilterGraph\<close> are not among the sources. The spec says that an
  output pad consumed by a mapping request cannot be consumed again and that doing so
  is a fatal error. An index is \<open>None\<close> when the argument is \<open>undefined\<close>.
\<close>

record FilterSource =
  outputPadNames :: "string list"
  mappedPads :: "nat option list"

definition markOutputPadMapped :: "FilterSource \<Rightarrow> nat option \<Rightarrow> js_error + FilterSource" where
  "markOutputPadMapped f i =
     (if i \<in> set (mappedPads f) then Inl (Error ''Output pad is already mapped'')
      else Inr (f\<lparr>mappedPads := mappedPads f @ [i]\<rparr>))"

text \<open>
  The value of a global option; \<open>js_String\<close> is JavaScript's \<open>String(value)\<close>.
  \<open>toCommand\<close> only tests a value against \<open>null\<close> and \<open>undefined\<close> and takes
  its text, so a value that is neither of these, nor a string nor a boolean (a number,
  an object), is \<open>OptOther\<close> with the text that \<open>String\<close> gives for it.
\<close>

datatype opt_value = OptNull | OptUndefined | OptStr string | OptBool bool | OptOther string

fun js_String :: "opt_value \<Rightarrow> string" where
  "js_String OptNull = ''null''"
| "js_String OptUndefined = ''undefined''"
| "js_String (OptStr s) = s"
| "js_String (OptBool b) = (if b then ''true'' else ''false'')"
| "js_String (OptOther t) = t"

text \<open>What \<open>getMappingParameterValue\<close> is given and what it returns.\<close>

datatype source = SrcInput ref | SrcFilterNode ref | SrcFilterGraph ref | SrcOther string

datatype mapping_value = InputStream nat "nat option" | PadName "string option"

text \<open>
  The state: the three stores and the fields of the command. \<open>options\<close> and
  \<open>cmd_connections\<close> are JavaScript \<open>Map\<close>s, kept as lists in insertion order (of
  \<open>_connections\<close> only the keys are ever read); \<open>cmd_inputs\<close>, \<open>cmd_outputs\<close> and
  \<open>cmd_filterGraphs\<close> are the arrays \<open>_inputs\<close>, \<open>_outputs\<close> and \<open>_filterGraphs\<close>.
  Outputs \<open>'o\<close> and filter graphs \<open>'g\<close> are classes that are not among the sources.
\<close>

record ('o, 'g) world =
  input_store :: "ref \<Rightarrow> FFmpegInput"
  output_store :: "ref \<Rightarrow> 'o"
  filter_store :: "ref \<Rightarrow> FilterSource"
  options :: "(string \<times> opt_value) list"
  cmd_inputs :: "ref list"
  cmd_outputs :: "ref list"
  cmd_filterGraphs :: "'g list"
  cmd_connections :: "string list"

text \<open>
  The collaborators that the command calls and that are not among the sources: the
  configured executable and the methods of inputs and outputs. Each method is a
  function of the object it is called on.
\<close>

record ('o, 'g) collaborators =
  ffmpeg_bin :: string
  input_toCommandArray :: "FFmpegInput \<Rightarrow> string list"
  output_toCommandArray :: "'o \<Rightarrow> string list"
  output_addOptions :: "'o \<Rightarrow> 'g \<Rightarrow> 'o"
  output_mapTrack :: "'o \<Rightarrow> nat \<Rightarrow> mapping_value \<Rightarrow> js_error + 'o"

text \<open>The constructor, lines 36 to 46, on the stores as they are.\<close>

definition FFmpegCommand_new ::
  "(string \<times> opt_value) list \<Rightarrow> ('o, 'g) world \<Rightarrow> ('o, 'g) world" where
  "FFmpegCommand_new opts w =
     w\<lparr>options := opts, cmd_inputs := [], cmd_outputs := [], cmd_filterGraphs := [],
       cmd_connections := []\<rparr>"

text \<open>\<open>addInput\<close>, lines 54 to 57.\<close>

definition FFmpegCommand_addInput :: "ref \<Rightarrow> ('o, 'g) world \<Rightarrow> ('o, 'g) world" where
  "FFmpegCommand_addInput input w =
     (let w1 = w\<lparr>input_store := (input_store w)
                   (input := (input_store w input)\<lparr>inputLabel := Some (length (cmd_inputs w))\<rparr>)\<rparr>
      in w1\<lparr>cmd_inputs := cmd_inputs w1 @ [input]\<rparr>)"

text \<open>\<open>Array.prototype.indexOf\<close>: \<open>None\<close> is the result \<open>-1\<close>.\<close>

fun indexOf :: "'a list \<Rightarrow> 'a \<Rightarrow> nat option" where
  "indexOf [] x = None"
| "indexOf (y # ys) x = (if y = x then Some 0 else map_option Suc (indexOf ys x))"

text \<open>\<open>x instanceof C\<close>: the identifier \<open>C\<close> is resolved first.\<close>

definition instanceof :: "string list \<Rightarrow> bool \<Rightarrow> string \<Rightarrow> js_error + bool" where
  "instanceof globals isInstance cls =
     (case resolve ffmpeg_command_scope globals cls of
        Inl e \<Rightarrow> Inl e
      | Inr u \<Rightarrow> Inr isInstance)"

fun isInput :: "source \<Rightarrow> bool" where
  "isInput (SrcInput r) = True"
| "isInput s = False"

fun isNode :: "source \<Rightarrow> bool" where
  "isNode (SrcFilterNode r) = True"
| "isNode s = False"

fun isGraph :: "source \<Rightarrow> bool" where
  "isGraph (SrcFilterGraph r) = True"
| "isGraph s = False"

fun sourceRef :: "source \<Rightarrow> ref" where
  "sourceRef (SrcInput r) = r"
| "sourceRef (SrcFilterNode r) = r"
| "sourceRef (SrcFilterGraph r) = r"
| "sourceRef (SrcOther s) = 0"

fun sourceText :: "source \<Rightarrow> string" where
  "sourceText (SrcOther s) = s"
| "sourceText s = ''[object Object]''"

text \<open>\<open>array[i]\<close>: \<open>undefined\<close> out of range and for an \<open>undefined\<close> index.\<close>

fun at :: "'a list \<Rightarrow> nat option \<Rightarrow> 'a option" where
  "at xs None = None"
| "at xs (Some i) = (if i < length xs then Some (xs ! i) else None)"

text \<open>
  \<open>getMappingParameterValue\<close>, lines 141 to 157, in its three parts: the branch of an
  input, the branch of a filter node or graph, and the test that chooses between them.
\<close>

definition mapFromInput ::
  "ref \<Rightarrow> nat option \<Rightarrow> ('o, 'g) world \<Rightarrow> (js_error + mapping_value) \<times> ('o, 'g) world" where
  "mapFromInput r fromStreamIndex w =
     (case indexOf (cmd_inputs w) r of
        None \<Rightarrow>
          (Inl (Error (''Unknown input file specified in output mapping: '' @ url (input_store w r))), w)
      | Some fromObjInputIndex \<Rightarrow> (Inr (InputStream fromObjInputIndex fromStreamIndex), w))"

definition mapFromFilter ::
  "ref \<Rightarrow> nat option \<Rightarrow> ('o, 'g) world \<Rightarrow> (js_error + mapping_value) \<times> ('o, 'g) world" where
  "mapFromFilter r fromStreamIndex w =
     (let fromObjectOutputPadName = at (outputPadNames (filter_store w r)) fromStreamIndex
      in case markOutputPadMapped (filter_store w r) fromStreamIndex of
           Inl e \<Rightarrow> (Inl e, w)
         | Inr f \<Rightarrow>
             (Inr (PadName fromObjectOutputPadName),
              w\<lparr>filter_store := (filter_store w)(r := f)\<rparr>))"

definition getMappingParameterValue ::
  "string list \<Rightarrow> source \<Rightarrow> nat option \<Rightarrow> ('o, 'g) world
     \<Rightarrow> (js_error + mapping_value) \<times> ('o, 'g) world" where
  "getMappingParameterValue globals fromObject fromStreamIndex w =
     (case instanceof globals (isInput fromObject) ''FFmpegInput'' of
        Inl e \<Rightarrow> (Inl e, w)
      | Inr True \<Rightarrow> mapFromInput (sourceRef fromObject) fromStreamIndex w
      | Inr False \<Rightarrow>
          (case instanceof globals (isNode fromObject) ''FilterNode'' of
             Inl e \<Rightarrow> (Inl e, w)
           | Inr True \<Rightarrow> mapFromFilter (sourceRef fromObject) fromStreamIndex w
           | Inr False \<Rightarrow>
               (case instanceof globals (isGraph fromObject) ''FilterGraph'' of
                  Inl e \<Rightarrow> (Inl e, w)
                | Inr True \<Rightarrow> mapFromFilter (sourceRef fromObject) fromStreamIndex w
                | Inr False \<Rightarrow>
                    (Inl (Error (''Unknown input type specified in output mapping: ''
                                 @ sourceText fromObject)), w))))"

text \<open>
  \<open>processMappings\<close>, lines 127 to 132: the callback of \<open>mappings.map\<close>, element by
  element. \<open>output\<close> is \<open>None\<close> when the parameter is \<open>undefined\<close>; the call
  \<open>output.mapTrack(...)\<close> then throws before its arguments are evaluated.
\<close>

fun processMappings_from ::
  "('o, 'g) collaborators \<Rightarrow> string list \<Rightarrow> nat \<Rightarrow> source list \<Rightarrow> ref option
     \<Rightarrow> ('o, 'g) world \<Rightarrow> (js_error + unit) \<times> ('o, 'g) world" where
  "processMappings_from X globals index [] output w = (Inr (), w)"
| "processMappings_from X globals index (mapping # rest) output w =
     (case output of
        None \<Rightarrow> (Inl (TypeError ''Cannot read property mapTrack of undefined''), w)
      | Some out \<Rightarrow>
          (case getMappingParameterValue globals mapping None w of
             (Inl e, w1) \<Rightarrow> (Inl e, w1)
           | (Inr v, w1) \<Rightarrow>
               (case output_mapTrack X (output_store w1 out) index v of
                  Inl e \<Rightarrow> (Inl e, w1)
                | Inr out' \<Rightarrow>
                    processMappings_from X globals (Suc index) rest output
                      (w1\<lparr>output_store := (output_store w1)(out := out')\<rparr>))))"

definition processMappings ::
  "('o, 'g) collaborators \<Rightarrow> string list \<Rightarrow> source list \<Rightarrow> ref option
     \<Rightarrow> ('o, 'g) world \<Rightarrow> (js_error + unit) \<times> ('o, 'g) world" where
  "processMappings X globals mappings output w = processMappings_from X globals 0 mappings output w"

text \<open>
  \<open>addOutput\<close>, lines 66 to 69: \<open>mappings\<close> is \<open>None\<close> for \<open>null\<close>. Line 68 calls
  \<open>processMappings\<close> with one argument, so its \<open>output\<close> is \<open>undefined\<close>.
\<close>

definition addOutput ::
  "('o, 'g) collaborators \<Rightarrow> string list \<Rightarrow> ref \<Rightarrow> source list option
     \<Rightarrow> ('o, 'g) world \<Rightarrow> (js_error + unit) \<times> ('o, 'g) world" where
  "addOutput X globals output mappings w =
     (let w1 = w\<lparr>cmd_outputs := cmd_outputs w @ [output]\<rparr>
      in case mappings of
           None \<Rightarrow> (Inr (), w1)
         | Some ms \<Rightarrow> processMappings X globals ms None w1)"

text \<open>
  \<open>addFilterGraph\<close>, lines 78 to 83. \<open>onOutput\<close> is \<open>null\<close>, an \<open>FFmpegOutput\<close> or
  an object of another class.
\<close>

datatype onOutput_arg = OnNull | OnOutput ref | OnOther

definition addFilterGraph ::
  "('o, 'g) collaborators \<Rightarrow> 'g \<Rightarrow> onOutput_arg \<Rightarrow> ('o, 'g) world \<Rightarrow> ('o, 'g) world" where
  "addFilterGraph X filterGraph onOutput w =
     (let w1 = w\<lparr>cmd_filterGraphs := cmd_filterGraphs w @ [filterGraph]\<rparr>
      in case onOutput of
           OnOutput out \<Rightarrow>
             w1\<lparr>output_store := (output_store w1)
                  (out := output_addOptions X (output_store w1 out) filterGraph)\<rparr>
         | _ \<Rightarrow> w1)"

text \<open>
  \<open>toCommand\<close>, lines 171 to 198. Each loop is a fold over what it iterates, with
  the array \<open>args\<close> as the accumulator; the loops of lines 182 to 193 only write to the log.
\<close>

record command_line =
  command :: string
  args :: "string list"

definition optionArgs :: "string \<times> opt_value \<Rightarrow> string list \<Rightarrow> string list" where
  "optionArgs kv acc =
     (let args1 = acc @ [''-'' @ fst kv]
      in if snd kv \<noteq> OptNull \<and> snd kv \<noteq> OptUndefined then args1 @ [js_String (snd kv)]
         else args1)"

definition handleMaps :: "('o, 'g) world \<Rightarrow> string list \<Rightarrow> string list" where
  "handleMaps w acc =
     fold (\<lambda>m a. fold (\<lambda>output a2. a2) (cmd_outputs w) (fold (\<lambda>input a1. a1) (cmd_inputs w) a))
          (cmd_connections w) acc"

definition toCommand ::
  "('o, 'g) collaborators \<Rightarrow> ('o, 'g) world \<Rightarrow> command_line \<times> ('o, 'g) world" where
  "toCommand X w =
     (let args0 = fold optionArgs (options w) [];
          args1 = fold (\<lambda>input a. a @ input_toCommandArray X (input_store w input))
                       (cmd_inputs w) args0;
          args2 = handleMaps w args1;
          args3 = fold (\<lambda>output a. a @ output_toCommandArray X (output_store w output))
                       (cmd_outputs w) args2
      in (\<lparr>command = ffmpeg_bin X, args = args3\<rparr>, w))"

text \<open>\<open>toString\<close>, lines 205 to 211; \<open>escapeQuotes\<close> is \<open>elt.replace(/\"/g, '\\"')\<close>.\<close>

fun escapeQuotes :: "string \<Rightarrow> string" where
  "escapeQuotes [] = []"
| "escapeQuotes (c # cs) =
     (if c = CHR 0x22 then CHR 0x5C # CHR 0x22 # escapeQuotes cs else c # escapeQuotes cs)"

definition quoteArg :: "string \<Rightarrow> string" where
  "quoteArg elt =
     (if startsWith elt CHR ''-'' then elt else [CHR 0x22] @ escapeQuotes elt @ [CHR 0x22])"

definition FFmpegCommand_toString ::
  "('o, 'g) collaborators \<Rightarrow> ('o, 'g) world \<Rightarrow> string \<times> ('o, 'g) world" where
  "FFmpegCommand_toString X w =
     (case toCommand X w of
        (cmd, w1) \<Rightarrow> (command cmd @ '' '' @ join '' '' (map quoteArg (args cmd)), w1))"

text \<open>
  A caller's use of the command: a sequence of calls, each on the state the one before
  left. A call that throws leaves the state it had reached, and the caller goes on.
\<close>

datatype 'g call =
    AddInput ref
  | AddOutput ref "source list option"
  | AddFilterGraph 'g onOutput_arg

fun perform ::
  "('o, 'g) collaborators \<Rightarrow> string list \<Rightarrow> 'g call \<Rightarrow> ('o, 'g) world \<Rightarrow> ('o, 'g) world" where
  "perform X globals (AddInput r) w = FFmpegCommand_addInput r w"
| "perform X globals (AddOutput r ms) w = snd (addOutput X globals r ms w)"
| "perform X globals (AddFilterGraph g on) w = addFilterGraph X g on w"

definition performAll ::
  "('o, 'g) collaborators \<Rightarrow> string list \<Rightarrow> 'g call list \<Rightarrow> ('o, 'g) world \<Rightarrow> ('o, 'g) world" where
  "performAll X globals cs w = fold (perform X globals) cs w"

fun addedInputs :: "'g call list \<Rightarrow> ref list" where
  "addedInputs [] = []"
| "addedInputs (AddInput r # cs) = r # addedInputs cs"
| "addedInputs (c # cs) = addedInputs cs"

section \<open>Concrete objects\<close>

text \<open>
  The objects of the tutorial's scenario, for evaluating the definitions: filter nodes
  with one, two, three and any number of input pads, an input \<open>clip.mov\<close>, an output
  \<open>out.mp4\<close>, and collaborators that render an input as \<open>-i url\<close> and an output as
  its file name. A stream specifier is here the text it renders to, and a filter graph
  is the list of its chains.
\<close>

definition edgedetect :: FilterNode where
  "edgedetect =
     \<lparr>filterName = ''edgedetect'', node_inputs = [''V''], node_outputs = [''V''],
      padPrefix = ''chain0_edgedetect''\<rparr>"

definition overlay :: FilterNode where
  "overlay =
     \<lparr>filterName = ''overlay'', node_inputs = [''V'', ''V''], node_outputs = [''V''],
      padPrefix = ''chain0_overlay''\<rparr>"



definition chainOf :: "FilterNode \<Rightarrow> string FilterChain" where
  "chainOf n = \<lparr>nodes = [n], inputs = []\<rparr>"

definition clip :: FFmpegInput where
  "clip = \<lparr>url = ''clip.mov'', inputLabel = None\<rparr>"

definition edgedetectSource :: FilterSource where
  "edgedetectSource = \<lparr>outputPadNames = [''chain0_edgedetect_0''], mappedPads = []\<rparr>"

definition plainWorld :: "(string, string FilterChain list) world" where
  "plainWorld =
     \<lparr>input_store = (\<lambda>r. clip), output_store = (\<lambda>r. ''out.mp4''),
      filter_store = (\<lambda>r. edgedetectSource), options = [], cmd_inputs = [],
      cmd_outputs = [], cmd_filterGraphs = [], cmd_connections = []\<rparr>"


definition plainX :: "(string, string FilterChain list) collaborators" where
  "plainX =
     \<lparr>ffmpeg_bin = ''ffmpeg'',
      input_toCommandArray = (\<lambda>i. [''-i'', url i]),
      output_toCommandArray = (\<lambda>out. [out]),
      output_addOptions = (\<lambda>out g. out),
      output_mapTrack = (\<lambda>out k v. Inr out)\<rparr>"

text \<open>
  The calls of the scenario: one input, one filter graph with the single chain
  \<open>edgedetect\<close>, one output.
\<close>

definition scenario :: "string FilterChain list call list" where
  "scenario = [AddInput 0, AddFilterGraph [chainOf edgedetect] OnNull, AddOutput 0 None]"

text \<open>
  Later calls of each kind: a filter graph attached to an output, an output whose
  mappings make the call throw, and one more input.
\<close>

definition laterCalls :: "string FilterChain list call list" where
  "laterCalls =
     [AddFilterGraph [chainOf edgedetect] (OnOutput 0), AddOutput 0 (Some [SrcInput 4]),
      AddInput 2]"

definition sameInputTwice :: "string FilterChain list call list" where
  "sameInputTwice = [AddInput 7, AddInput 7]"

section \<open>Rendering a filter chain\<close>

lemma join_concat: "join [] xs = concat xs"
proof (induction xs)
  case Nil
  show ?case by simp
next
  case (Cons x xs)
  then show ?case by (cases xs) simp_all
qed

lemma endsWith_snoc: "endsWith (s @ [c]) d = (c = d)"
proof (induction s)
  case Nil
  show ?case by simp
next
  case (Cons x xs)
  then show ?case by (cases xs) simp_all
qed

lemma bracket_is_bracketed:
  "startsWith (bracket s) CHR ''['' \<and> endsWith (bracket s) CHR '']''"
proof (cases "startsWith s CHR ''['' \<and> endsWith s CHR '']''")
  case True
  then show ?thesis by (simp add: bracket_def)
next
  case False
  have "endsWith ((CHR ''['' # s) @ [CHR '']'']) CHR '']''"
    by (simp only: endsWith_snoc)
  with False show ?thesis by (simp add: bracket_def)
qed

lemma bracket_idem: "bracket (bracket s) = bracket s"
  using bracket_is_bracketed [of s] by (simp add: bracket_def)

lemma toString_nonempty:
  "nodes c \<noteq> [] \<Longrightarrow>
   FilterChain_toString sstr nstr c =
     Inr (concat (map (\<lambda>i. bracket (sstr i)) (inputs c)) @ filtersText nstr c
          @ outputsText (last (nodes c)))"
  by (cases "nodes c")
    (simp_all add: FilterChain_toString_def outputNode_def inputsText_def join_concat)

text \<open>
  With no bound inputs the text is the filters followed by one bracketed name for each
  output pad of the last node. Nothing in the chain records whether a stream specifier
  was requested for a pad.
\<close>

lemma toString_without_inputs:
  "nodes c \<noteq> [] \<Longrightarrow> inputs c = [] \<Longrightarrow>
   FilterChain_toString sstr nstr c = Inr (filtersText nstr c @ outputsText (last (nodes c)))"
  by (cases "nodes c") (simp_all add: FilterChain_toString_def outputNode_def inputsText_def)

text \<open>
  Claim C8. The text of a chain (one that has a node, as every constructed chain has)
  starts with its bound inputs in order, each passed through \<open>bracket\<close>: a rendering
  \<open>s1\<close> that starts with \<open>[\<close> and ends with \<open>]\<close> is emitted unchanged, any other
  rendering \<open>s2\<close> is wrapped in one pair of brackets, and \<open>bracket\<close> applied twice
  is \<open>bracket\<close> applied once.
\<close>

theorem bound_inputs_bracketed_once:
  assumes "nodes c \<noteq> []"
    and "startsWith s1 CHR ''['' \<and> endsWith s1 CHR '']''"
    and "\<not> (startsWith s2 CHR ''['' \<and> endsWith s2 CHR '']'')"
  shows "FilterChain_toString sstr nstr c =
           Inr (concat (map (\<lambda>i. bracket (sstr i)) (inputs c)) @ filtersText nstr c
                @ outputsText (last (nodes c)))
         \<and> bracket s1 = s1
         \<and> bracket s2 = ''['' @ s2 @ '']''
         \<and> bracket (bracket s) = bracket s"
  using assms by (simp add: toString_nonempty bracket_idem) (simp add: bracket_def)

theorem bound_inputs_bracketed_once_witness:
  "nodes ((chainOf edgedetect)\<lparr>inputs := [''[x]'', ''0:v'']\<rparr>) \<noteq> []
   \<and> (startsWith ''[x]'' CHR ''['' \<and> endsWith ''[x]'' CHR '']'')
   \<and> \<not> (startsWith ''0:v'' CHR ''['' \<and> endsWith ''0:v'' CHR '']'')
   \<and> FilterChain_toString (\<lambda>s. s) filterName ((chainOf edgedetect)\<lparr>inputs := [''[x]'', ''0:v'']\<rparr>)
       = Inr ''[x][0:v]edgedetect[chain0_edgedetect_0]''
   \<and> bracket ''[x]'' = ''[x]''
   \<and> bracket ''0:v'' = ''[0:v]''
   \<and> bracket (bracket ''a'') = bracket ''a''"
  using bound_inputs_bracketed_once [of "(chainOf edgedetect)\<lparr>inputs := [''[x]'', ''0:v'']\<rparr>"
      "''[x]''" "''0:v''" "\<lambda>s. s" filterName "''a''"]
  by (simp add: chainOf_def edgedetect_def filtersText_def outputsText_def bracket_def
      show_nat.simps digit_def)

text \<open>
  Claim C2 says that a chain with no bound inputs, for whose output pads no stream
  specifier was requested, renders to the comma-joined filters alone. The chain of
  the single node \<open>edgedetect\<close>, with no bound inputs and nothing requested, renders
  with the bracketed name of its output pad appended.
\<close>

theorem chain_labels_unrequested_pads:
  "FilterChain_toString (\<lambda>s. s) filterName (chainOf edgedetect) =
     Inr ''edgedetect[chain0_edgedetect_0]''"
  by (simp add: FilterChain_toString_def outputNode_def chainOf_def edgedetect_def inputsText_def
      filtersText_def outputsText_def show_nat.simps digit_def)

text \<open>
  Claim C10. \<open>wrap\<close> of a filter node is a new chain whose nodes are that node alone
  and whose bound inputs are empty; \<open>wrap\<close> of a value \<open>v\<close> that is not a filter node
  (a chain, for one) is \<open>v\<close>.
\<close>

theorem wrap_node_or_identity:
  assumes "\<not> isFilterNode v"
  shows "wrap (NodeObj n) = Inr (ChainObj \<lparr>nodes = [n], inputs = []\<rparr>) \<and> wrap v = Inr v"
  using assms by (simp add: wrap_def)

theorem wrap_node_or_identity_witness:
  "\<not> isFilterNode (ChainObj (chainOf overlay))
   \<and> wrap (NodeObj edgedetect) = Inr (ChainObj \<lparr>nodes = [edgedetect], inputs = []\<rparr>)
   \<and> wrap (ChainObj (chainOf overlay)) = Inr (ChainObj (chainOf overlay))"
  using wrap_node_or_identity [of "ChainObj (chainOf overlay)" edgedetect]
  by simp

section \<open>Binding inputs to a filter chain\<close>









section \<open>Rendering the command\<close>

lemma fold_append_concat: "fold (\<lambda>x a. a @ f x) xs acc = acc @ concat (map f xs)"
  by (induction xs arbitrary: acc) simp_all

lemma fold_keep: "fold (\<lambda>x a. a) xs acc = acc"
  by (induction xs arbitrary: acc) simp_all

lemma handleMaps_id: "handleMaps w acc = acc"
  by (simp add: handleMaps_def fold_keep)

lemma optionArgs_append: "optionArgs kv acc = acc @ optionArgs kv []"
  by (simp add: optionArgs_def Let_def)

lemma fold_optionArgs:
  "fold optionArgs opts acc = acc @ concat (map (\<lambda>kv. optionArgs kv []) opts)"
proof (induction opts arbitrary: acc)
  case Nil
  show ?case by simp
next
  case (Cons kv opts)
  show ?case by (simp add: Cons.IH [of "optionArgs kv acc"]) (subst optionArgs_append, simp)
qed

text \<open>
  The argument list is the global options, then the block of each input, then the block
  of each output, each in insertion order, and nothing else: \<open>_filterGraphs\<close> is not
  read and the loops over \<open>_connections\<close> add nothing.
\<close>

lemma toCommand_args:
  "args (fst (toCommand X w)) =
     concat (map (\<lambda>kv. optionArgs kv []) (options w))
     @ concat (map (\<lambda>r. input_toCommandArray X (input_store w r)) (cmd_inputs w))
     @ concat (map (\<lambda>r. output_toCommandArray X (output_store w r)) (cmd_outputs w))"
  by (simp add: toCommand_def Let_def handleMaps_id fold_append_concat fold_optionArgs)

text \<open>
  Claim C1 says that the argument list carries one \<open>-filter_complex\<close> argument with
  the rendered graph when an attached filter graph is not empty. After the calls of the
  scenario the command holds the graph of the chain \<open>edgedetect\<close>, and its argument
  list is the input's block followed by the output's block.
\<close>

theorem toCommand_omits_filter_complex:
  "cmd_filterGraphs (performAll plainX [] scenario (FFmpegCommand_new [] plainWorld))
     = [[chainOf edgedetect]]
   \<and> args (fst (toCommand plainX (performAll plainX [] scenario (FFmpegCommand_new [] plainWorld))))
       = [''-i'', ''clip.mov'', ''out.mp4'']"
  by (simp add: toCommand_args performAll_def scenario_def FFmpegCommand_new_def plainWorld_def
      plainX_def FFmpegCommand_addInput_def addFilterGraph_def addOutput_def clip_def Let_def)

text \<open>
  Claim C9. \<open>toCommand\<close> and \<open>toString\<close> leave the state (the command's options,
  inputs, outputs, filter graphs and connections, and the objects in the stores) as it
  was, and a second call on the state the first one left returns the same result.
\<close>

theorem rendering_reads_only:
  "snd (toCommand X w) = w
   \<and> fst (toCommand X (snd (toCommand X w))) = fst (toCommand X w)
   \<and> snd (FFmpegCommand_toString X w) = w
   \<and> fst (FFmpegCommand_toString X (snd (FFmpegCommand_toString X w)))
       = fst (FFmpegCommand_toString X w)"
proof -
  have 1: "snd (toCommand X w) = w" by (simp add: toCommand_def Let_def)
  have 2: "snd (FFmpegCommand_toString X w) = w"
    using 1 by (cases "toCommand X w") (simp add: FFmpegCommand_toString_def)
  show ?thesis by (simp add: 1 2)
qed

section \<open>Mapping sources\<close>

lemma indexOf_Some: "indexOf xs x = Some k \<Longrightarrow> k < length xs \<and> xs ! k = x"
  by (induction xs arbitrary: k) (auto split: if_splits)

lemma indexOf_None: "indexOf xs x = None \<longleftrightarrow> x \<notin> set xs"
  by (induction xs) auto

text \<open>An input of the command maps to its index and the stream index; another input throws.\<close>

lemma mapping_from_present_input:
  "indexOf (cmd_inputs w) r = Some k \<Longrightarrow>
   getMappingParameterValue g (SrcInput r) i w = (Inr (InputStream k i), w)"
  by (simp add: getMappingParameterValue_def instanceof_def resolve_def ffmpeg_command_scope_def
      mapFromInput_def)

lemma mapping_from_absent_input:
  "r \<notin> set (cmd_inputs w) \<Longrightarrow>
   getMappingParameterValue g (SrcInput r) i w =
     (Inl (Error (''Unknown input file specified in output mapping: '' @ url (input_store w r))), w)"
  by (simp add: getMappingParameterValue_def instanceof_def resolve_def ffmpeg_command_scope_def
      mapFromInput_def indexOf_None [THEN iffD2])

text \<open>
  For a source that is not an input, line 149 reads \<open>FilterNode\<close>, which the module
  does not declare.
\<close>

lemma non_input_without_FilterNode:
  "\<not> isInput s \<Longrightarrow> ''FilterNode'' \<notin> set g \<Longrightarrow>
   getMappingParameterValue g s i w = (Inl (ReferenceError ''FilterNode''), w)"
  by (simp add: getMappingParameterValue_def instanceof_def resolve_def ffmpeg_command_scope_def)

text \<open>What lines 149 to 156 do where both class names resolve.\<close>

lemma unknown_source_with_classes:
  "''FilterNode'' \<in> set g \<Longrightarrow> ''FilterGraph'' \<in> set g \<Longrightarrow>
   getMappingParameterValue g (SrcOther s) i w =
     (Inl (Error (''Unknown input type specified in output mapping: '' @ s)), w)"
  by (simp add: getMappingParameterValue_def instanceof_def resolve_def ffmpeg_command_scope_def)

text \<open>
  A request for a pad that is marked as mapped fails at the call and changes nothing,
  whether or not the class names resolve.
\<close>

lemma marked_pad_request_fails:
  assumes "isNode src \<or> isGraph src"
    and "i \<in> set (mappedPads (filter_store w (sourceRef src)))"
  shows "\<exists>e. getMappingParameterValue g src i w = (Inl e, w)"
  using assms
  by (cases src)
    (auto simp add: getMappingParameterValue_def instanceof_def resolve_def
      ffmpeg_command_scope_def mapFromFilter_def markOutputPadMapped_def Let_def)



text \<open>
  Claim C5 says that a source of an unrecognised type raises the error for an unknown
  mapping source. With nothing on the global object, such a source throws
  \<open>ReferenceError\<close> at line 149, and line 156 is not reached.
\<close>

theorem unknown_source_throws_ReferenceError:
  "getMappingParameterValue [] (SrcOther s) i w = (Inl (ReferenceError ''FilterNode''), w)"
  by (simp add: getMappingParameterValue_def instanceof_def resolve_def ffmpeg_command_scope_def)

section \<open>Input labels\<close>

text \<open>Resolving mappings and adding outputs or filter graphs touch no input.\<close>

lemma getMapping_keeps_inputs:
  "input_store (snd (getMappingParameterValue g s i w)) = input_store w
   \<and> cmd_inputs (snd (getMappingParameterValue g s i w)) = cmd_inputs w"
  by (simp add: getMappingParameterValue_def mapFromInput_def mapFromFilter_def Let_def
      split: sum.splits bool.splits option.splits)

lemma processMappings_keeps_inputs:
  "input_store (snd (processMappings_from X g n ms out w)) = input_store w
   \<and> cmd_inputs (snd (processMappings_from X g n ms out w)) = cmd_inputs w"
proof (induction ms arbitrary: n w)
  case Nil
  show ?case by simp
next
  case (Cons m ms)
  show ?case
  proof (cases out)
    case None
    then show ?thesis by simp
  next
    case (Some r)
    obtain res w1 where g: "getMappingParameterValue g m None w = (res, w1)"
      by (cases "getMappingParameterValue g m None w")
    have k: "input_store w1 = input_store w \<and> cmd_inputs w1 = cmd_inputs w"
      using getMapping_keeps_inputs [of g m None w] g by simp
    show ?thesis
    proof (cases res)
      case (Inl e)
      with Some g k show ?thesis by simp
    next
      case (Inr v)
      show ?thesis
      proof (cases "output_mapTrack X (output_store w1 r) n v")
        case (Inl e)
        with Some g k Inr show ?thesis by simp
      next
        case (Inr out')
        with Some g k \<open>res = Inr v\<close>
          Cons.IH [of "Suc n" "w1\<lparr>output_store := (output_store w1)(r := out')\<rparr>"]
        show ?thesis by simp
      qed
    qed
  qed
qed

lemma addOutput_keeps_inputs:
  "input_store (snd (addOutput X g r ms w)) = input_store w
   \<and> cmd_inputs (snd (addOutput X g r ms w)) = cmd_inputs w"
  by (cases ms) (simp_all add: addOutput_def processMappings_def processMappings_keeps_inputs Let_def)

lemma addFilterGraph_keeps_inputs:
  "input_store (addFilterGraph X gr on w) = input_store w
   \<and> cmd_inputs (addFilterGraph X gr on w) = cmd_inputs w"
  by (cases on) (simp_all add: addFilterGraph_def Let_def)

text \<open>
  \<open>addInput\<close> writes the label on the object it is given and appends the object.
\<close>

lemma addInput_inputs:
  "cmd_inputs (FFmpegCommand_addInput r w) = cmd_inputs w @ [r]"
  by (simp add: FFmpegCommand_addInput_def Let_def)

lemma addInput_label:
  "inputLabel (input_store (FFmpegCommand_addInput r w) q) =
     (if q = r then Some (length (cmd_inputs w)) else inputLabel (input_store w q))"
  by (simp add: FFmpegCommand_addInput_def Let_def)

text \<open>
  The invariant: every entry of \<open>_inputs\<close> carries its position as label. It is kept
  by calls that add objects which are not yet in the list.
\<close>

lemma performAll_labels:
  assumes "\<forall>k < length (cmd_inputs w). inputLabel (input_store w (cmd_inputs w ! k)) = Some k"
    and "distinct (cmd_inputs w @ addedInputs cs)"
  shows "cmd_inputs (performAll X g cs w) = cmd_inputs w @ addedInputs cs
         \<and> (\<forall>k < length (cmd_inputs w @ addedInputs cs).
               inputLabel (input_store (performAll X g cs w) ((cmd_inputs w @ addedInputs cs) ! k)) = Some k)"
  using assms
proof (induction cs arbitrary: w)
  case Nil
  then show ?case by (simp add: performAll_def)
next
  case (Cons c cs)
  have step: "performAll X g (d # cs) w = performAll X g cs (perform X g d w)" for d
    by (simp add: performAll_def)
  show ?case
  proof (cases c)
    case (AddInput r)
    let ?w = "FFmpegCommand_addInput r w"
    have fresh: "r \<notin> set (cmd_inputs w)"
      using Cons.prems(2) AddInput by auto
    have inv: "\<forall>k < length (cmd_inputs ?w). inputLabel (input_store ?w (cmd_inputs ?w ! k)) = Some k"
    proof (intro allI impI)
      fix k assume "k < length (cmd_inputs ?w)"
      then have "k < length (cmd_inputs w) \<or> k = length (cmd_inputs w)"
        by (auto simp: addInput_inputs)
      then show "inputLabel (input_store ?w (cmd_inputs ?w ! k)) = Some k"
      proof
        assume lt: "k < length (cmd_inputs w)"
        then have "cmd_inputs w ! k \<noteq> r" using fresh by (metis nth_mem)
        with lt Cons.prems(1) show ?thesis
          by (simp add: addInput_inputs addInput_label nth_append)
      next
        assume "k = length (cmd_inputs w)"
        then show ?thesis by (simp add: addInput_inputs addInput_label)
      qed
    qed
    have dist: "distinct (cmd_inputs ?w @ addedInputs cs)"
      using Cons.prems(2) AddInput by (simp add: addInput_inputs)
    from Cons.IH [OF inv dist] show ?thesis
      using AddInput by (simp add: step addInput_inputs)
  next
    case (AddOutput r ms)
    let ?w = "snd (addOutput X g r ms w)"
    have keep: "input_store ?w = input_store w \<and> cmd_inputs ?w = cmd_inputs w"
      by (rule addOutput_keeps_inputs)
    have inv: "\<forall>k < length (cmd_inputs ?w). inputLabel (input_store ?w (cmd_inputs ?w ! k)) = Some k"
      using Cons.prems(1) keep by simp
    have dist: "distinct (cmd_inputs ?w @ addedInputs cs)"
      using Cons.prems(2) AddOutput keep by simp
    from Cons.IH [OF inv dist] show ?thesis
      using AddOutput keep by (simp add: step)
  next
    case (AddFilterGraph gr on)
    let ?w = "addFilterGraph X gr on w"
    have keep: "input_store ?w = input_store w \<and> cmd_inputs ?w = cmd_inputs w"
      by (rule addFilterGraph_keeps_inputs)
    have inv: "\<forall>k < length (cmd_inputs ?w). inputLabel (input_store ?w (cmd_inputs ?w ! k)) = Some k"
      using Cons.prems(1) keep by simp
    have dist: "distinct (cmd_inputs ?w @ addedInputs cs)"
      using Cons.prems(2) AddFilterGraph keep by simp
    from Cons.IH [OF inv dist] show ?thesis
      using AddFilterGraph keep by (simp add: step)
  qed
qed

lemma addedInputs_append: "addedInputs (cs @ ds) = addedInputs cs @ addedInputs ds"
  by (induction cs rule: addedInputs.induct) simp_all

text \<open>
  Claim C3, as the code has it. On a new command, for calls in which the objects passed
  to \<open>addInput\<close> are pairwise distinct: the list of inputs is these objects in the
  order of the calls, the \<open>k\<close>-th of them has label \<open>k\<close> from the call that added
  it, and it still has label \<open>k\<close> after any further calls \<open>later\<close> of \<open>addInput\<close>,
  \<open>addOutput\<close> and \<open>addFilterGraph\<close>, whether they return or throw.
\<close>

theorem distinct_inputs_keep_labels:
  assumes "distinct (addedInputs (cs @ later))"
    and "k < length (addedInputs cs)"
  shows "cmd_inputs (performAll X g cs (FFmpegCommand_new opts w)) = addedInputs cs
         \<and> inputLabel (input_store (performAll X g cs (FFmpegCommand_new opts w))
                                   (addedInputs cs ! k)) = Some k
         \<and> inputLabel (input_store (performAll X g (cs @ later) (FFmpegCommand_new opts w))
                                   (addedInputs cs ! k)) = Some k"
proof -
  let ?w0 = "FFmpegCommand_new opts w"
  have e: "cmd_inputs ?w0 = []" by (simp add: FFmpegCommand_new_def)
  have inv0: "\<forall>k < length (cmd_inputs ?w0). inputLabel (input_store ?w0 (cmd_inputs ?w0 ! k)) = Some k"
    by (simp add: e)
  have d1: "distinct (cmd_inputs ?w0 @ addedInputs cs)"
    using assms(1) by (simp add: e addedInputs_append)
  have d2: "distinct (cmd_inputs ?w0 @ addedInputs (cs @ later))"
    using assms(1) by (simp add: e)
  have k2: "k < length (addedInputs (cs @ later))"
    using assms(2) by (simp add: addedInputs_append)
  have n2: "addedInputs (cs @ later) ! k = addedInputs cs ! k"
    using assms(2) by (simp add: addedInputs_append nth_append)
  from performAll_labels [OF inv0 d1, of X g] performAll_labels [OF inv0 d2, of X g]
  show ?thesis using assms(2) k2 n2 by (simp add: e) metis
qed

theorem distinct_inputs_keep_labels_witness:
  "distinct (addedInputs (([AddInput 4, AddInput 9] :: string FilterChain list call list) @ laterCalls))
   \<and> 1 < length (addedInputs ([AddInput 4, AddInput 9] :: string FilterChain list call list))
   \<and> cmd_inputs (performAll plainX [] [AddInput 4, AddInput 9] (FFmpegCommand_new [] plainWorld))
       = [4, 9]
   \<and> inputLabel (input_store
         (performAll plainX [] [AddInput 4, AddInput 9] (FFmpegCommand_new [] plainWorld)) 9)
       = Some 1
   \<and> inputLabel (input_store
         (performAll plainX [] ([AddInput 4, AddInput 9] @ laterCalls) (FFmpegCommand_new [] plainWorld)) 9)
       = Some 1"
  using distinct_inputs_keep_labels [of "[AddInput 4, AddInput 9]" laterCalls 1 plainX "[]" "[]"
      plainWorld]
  by (simp add: laterCalls_def)

text \<open>
  Claim C3 as it is stated, for every sequence of inputs, fails where the same object is
  passed twice: the second call writes label 1 on the object that was added first.
\<close>

theorem same_input_twice_relabelled:
  "addedInputs sameInputTwice ! 0 = 7
   \<and> inputLabel (input_store (performAll plainX [] sameInputTwice (FFmpegCommand_new [] plainWorld))
                             (addedInputs sameInputTwice ! 0)) = Some 1
   \<and> inputLabel (input_store (performAll plainX [] sameInputTwice (FFmpegCommand_new [] plainWorld))
                             (addedInputs sameInputTwice ! 0)) \<noteq> Some 0"
  by (simp add: sameInputTwice_def performAll_def FFmpegCommand_addInput_def FFmpegCommand_new_def
      plainWorld_def Let_def)

end
